theory Spec2Isabelle
  imports Complex_Main "HOL-Library.Sublist" "HOL-Library.Multiset"
begin

section \<open>Data model\<close>

text \<open>
  A Python \<open>str\<close> is a sequence of Unicode code points: \<open>len\<close>, slicing, \<open>replace\<close> and
  \<open>strip\<close> all count code points, so a string is a list of code-point numbers. The
  currency sign is U+00A3 and the mis-decoding artifact is U+00C2. \<open>u\<close> turns an ASCII
  literal into such a string.
\<close>

type_synonym pystr = "nat list"

definition u :: "string \<Rightarrow> pystr" where
  "u s = map of_char s"

text \<open>
  One row of the table (one dict appended by \<open>parse_books\<close>, one row of the DataFrame in
  \<open>analyze.py\<close>). A title is \<open>None\<close> when the loaded cell is missing (pandas NaN): that is
  the case \<open>na=False\<close> addresses in \<open>filter_by_keyword\<close>. Prices are float64 in the source;
  they are modelled by the real number they denote, which agrees with float comparison
  (rounding of arithmetic on them is not modelled).
\<close>

record book =
  title :: "pystr option"
  price :: real
  rating :: int
  link :: pystr

type_synonym dataframe = "book list"

text \<open>The lines the reporter prints, one constructor per \<open>print\<close> call of \<open>analyze.py\<close>.\<close>

datatype display_row = Display_Row pystr real int pystr

datatype report_line =
    Price_Filter real
  | Keyword_Filter pystr
  | Rating_Filter int
  | Sort_Notice pystr bool
  | No_Records
  | Rule
  | Found_Shown nat nat
  | Table "display_row list"
  | Stats_Header
  | Mean_Price real
  | Min_Price real
  | Max_Price real
  | Mean_Rating real

section \<open>analyze.py: the filters\<close>

text \<open>
  \<open>if max_price:\<close> tests Python truthiness: \<open>None\<close>, the number zero and the empty
  string are falsy, everything else is truthy. \<open>df[mask]\<close> keeps the rows whose mask entry
  is true, in their order. Each filter returns the table together with the line it
  printed (none when the filter is not applied).
\<close>

fun filter_by_price :: "dataframe \<Rightarrow> real option \<Rightarrow> dataframe \<times> report_line list" where
  "filter_by_price df None = (df, [])"
| "filter_by_price df (Some max_price) =
     (if max_price \<noteq> 0
      then (filter (\<lambda>b. price b \<le> max_price) df, [Price_Filter max_price])
      else (df, []))"

text \<open>
  \<open>Series.str.contains(keyword, case=False, na=False)\<close> is a function of pandas: the test
  it applies to a present title is the parameter \<open>contains\<close> (keyword first, then title);
  a missing title gives \<open>False\<close>.
\<close>

definition title_matches :: "(pystr \<Rightarrow> pystr \<Rightarrow> bool) \<Rightarrow> pystr \<Rightarrow> book \<Rightarrow> bool" where
  "title_matches contains keyword b =
     (case title b of None \<Rightarrow> False | Some t \<Rightarrow> contains keyword t)"

fun filter_by_keyword ::
  "(pystr \<Rightarrow> pystr \<Rightarrow> bool) \<Rightarrow> dataframe \<Rightarrow> pystr option \<Rightarrow> dataframe \<times> report_line list" where
  "filter_by_keyword contains df None = (df, [])"
| "filter_by_keyword contains df (Some keyword) =
     (if keyword \<noteq> []
      then (filter (title_matches contains keyword) df, [Keyword_Filter keyword])
      else (df, []))"

fun filter_by_rating :: "dataframe \<Rightarrow> int option \<Rightarrow> dataframe \<times> report_line list" where
  "filter_by_rating df None = (df, [])"
| "filter_by_rating df (Some min_rating) =
     (if min_rating \<noteq> 0
      then (filter (\<lambda>b. rating b \<ge> min_rating) df, [Rating_Filter min_rating])
      else (df, []))"

text \<open>
  A plain instance of the title test for concrete runs: the keyword occurs in the title
  as a contiguous piece, ASCII letters compared without case.
\<close>

definition lower_cp :: "nat \<Rightarrow> nat" where
  "lower_cp c = (if 65 \<le> c \<and> c \<le> 90 then c + 32 else c)"

fun starts_with :: "pystr \<Rightarrow> pystr \<Rightarrow> bool" where
  "starts_with [] s = True"
| "starts_with (k # ks) [] = False"
| "starts_with (k # ks) (c # cs) = (k = c \<and> starts_with ks cs)"

fun occurs_in :: "pystr \<Rightarrow> pystr \<Rightarrow> bool" where
  "occurs_in k [] = (k = [])"
| "occurs_in k (c # cs) = (starts_with k (c # cs) \<or> occurs_in k cs)"

definition icontains :: "pystr \<Rightarrow> pystr \<Rightarrow> bool" where
  "icontains keyword t = occurs_in (map lower_cp keyword) (map lower_cp t)"

section \<open>analyze.py: the report\<close>

datatype exn = ValueError | TypeError | AttributeError | KeyError

text \<open>\<open>df.head(n)\<close>: the first \<open>n\<close> rows; for negative \<open>n\<close>, all rows but the last \<open>-n\<close>.\<close>

definition head :: "dataframe \<Rightarrow> int \<Rightarrow> dataframe" where
  "head df n = (if 0 \<le> n then take (nat n) df else take (length df - nat (- n)) df)"

text \<open>\<open>x[:n] + '...' if len(x) > n else x\<close>\<close>

definition shorten :: "nat \<Rightarrow> pystr \<Rightarrow> pystr" where
  "shorten n x = (if length x > n then take n x @ u ''...'' else x)"

text \<open>
  The three \<open>apply\<close> passes over the displayed rows print nothing; the only one that can
  raise is the title pass, where \<open>len(x)\<close> of a missing title (a float NaN) is a
  \<open>TypeError\<close>. The price cell keeps the number that \<open>f"{x:.2f}"\<close> formats.
\<close>

fun display_rows :: "dataframe \<Rightarrow> exn + display_row list" where
  "display_rows [] = Inr []"
| "display_rows (b # bs) =
     (case title b of
        None \<Rightarrow> Inl TypeError
      | Some t \<Rightarrow>
          (case display_rows bs of
             Inl e \<Rightarrow> Inl e
           | Inr rows \<Rightarrow> Inr (Display_Row (shorten 50 t) (price b) (rating b) (shorten 40 (link b)) # rows)))"

definition mean :: "real list \<Rightarrow> real" where
  "mean xs = sum_list xs / real (length xs)"

fun display_results :: "dataframe \<Rightarrow> int \<Rightarrow> exn + report_line list" where
  "display_results [] top_n = Inr [No_Records]"
| "display_results (b # bs) top_n =
     (let df = b # bs; display_df = head df top_n in
      case display_rows display_df of
        Inl e \<Rightarrow> Inl e
      | Inr rows \<Rightarrow>
          Inr [Rule, Found_Shown (length df) (length display_df), Rule, Table rows,
               Rule, Stats_Header,
               Mean_Price (mean (map price df)),
               Min_Price (fold min (map price bs) (price b)),
               Max_Price (fold max (map price bs) (price b)),
               Mean_Rating (mean (map (\<lambda>r. real_of_int (rating r)) df)),
               Rule])"

text \<open>The rows of the printed table, and the count of displayed rows, read off the output.\<close>

fun table_rows :: "report_line list \<Rightarrow> display_row list" where
  "table_rows [] = []"
| "table_rows (Table rows # ls) = rows @ table_rows ls"
| "table_rows (l # ls) = table_rows ls"

section \<open>parser.py: field extraction\<close>

text \<open>
  \<open>str.replace(old, new)\<close>: occurrences of \<open>old\<close> are replaced from the left, without
  overlap; an empty \<open>old\<close> matches before every character and at the end.
\<close>

function py_replace :: "pystr \<Rightarrow> pystr \<Rightarrow> pystr \<Rightarrow> pystr" where
  "py_replace old new [] = (if old = [] then new else [])"
| "py_replace old new (c # cs) =
     (if old = [] then new @ c # py_replace old new cs
      else if starts_with old (c # cs)
      then new @ py_replace old new (drop (length old) (c # cs))
      else c # py_replace old new cs)"
  by pat_completeness auto
termination
  by (relation "measure (\<lambda>(old, new, s). length s)") auto

text \<open>The characters \<open>str.strip()\<close> removes at both ends (those with \<open>str.isspace\<close>).\<close>

definition is_space :: "nat \<Rightarrow> bool" where
  "is_space c =
     ((9 \<le> c \<and> c \<le> 13) \<or> (28 \<le> c \<and> c \<le> 32) \<or> c = 133 \<or> c = 160 \<or> c = 5760
      \<or> (8192 \<le> c \<and> c \<le> 8202) \<or> c = 8232 \<or> c = 8233 \<or> c = 8239 \<or> c = 8287
      \<or> c = 12288)"

definition strip :: "pystr \<Rightarrow> pystr" where
  "strip s = rev (dropWhile is_space (rev (dropWhile is_space s)))"

definition pound :: nat where
  "pound = 163"

definition artifact :: nat where
  "artifact = 194"

text \<open>
  \<open>float(...)\<close> is Python's builtin: it is the parameter \<open>float\<close>, \<open>None\<close> where the builtin
  raises \<open>ValueError\<close> and otherwise the number it returns.
\<close>

definition parse_price :: "(pystr \<Rightarrow> real option) \<Rightarrow> pystr \<Rightarrow> exn + real" where
  "parse_price float price_text =
     (case float (strip (py_replace [artifact] [] (py_replace [pound] [] price_text))) of
        None \<Rightarrow> Inl ValueError
      | Some x \<Rightarrow> Inr x)"

text \<open>
  A plain instance of \<open>float\<close> for concrete runs: unsigned decimal numerals, digits with
  at most one point and at least one digit.
\<close>

definition is_digit :: "nat \<Rightarrow> bool" where
  "is_digit c = (48 \<le> c \<and> c \<le> 57)"

definition digits_value :: "pystr \<Rightarrow> nat" where
  "digits_value ds = fold (\<lambda>c n. 10 * n + (c - 48)) ds 0"

definition float_decimal :: "pystr \<Rightarrow> real option" where
  "float_decimal s =
     (let ip = takeWhile is_digit s; rest = dropWhile is_digit s in
      case rest of
        [] \<Rightarrow> (if ip = [] then None else Some (real (digits_value ip)))
      | c # fp \<Rightarrow>
          (if c = 46 \<and> list_all is_digit fp \<and> (ip \<noteq> [] \<or> fp \<noteq> [])
           then Some (real (digits_value ip) + real (digits_value fp) / 10 ^ length fp)
           else None))"

text \<open>
  The argument of \<open>parse_rating\<close> is the value of a \<open>class\<close> attribute, which the markup
  parser gives as the list of class tokens; a caller may also pass the attribute text.
  \<open>key in rating_class\<close> is membership in the first case and substring in the second.
\<close>

datatype rating_class = Class_Tokens "pystr list" | Class_Text pystr

fun py_in :: "pystr \<Rightarrow> rating_class \<Rightarrow> bool" where
  "py_in key (Class_Tokens ts) = (key \<in> set ts)"
| "py_in key (Class_Text s) = occurs_in key s"

text \<open>The dict literal, in insertion order (the order a \<open>for\<close> over the dict visits its keys).\<close>

definition rating_map :: "(pystr \<times> int) list" where
  "rating_map =
     [(u ''One'', 1), (u ''Two'', 2), (u ''Three'', 3), (u ''Four'', 4), (u ''Five'', 5)]"

fun rating_loop :: "pystr list \<Rightarrow> rating_class \<Rightarrow> exn + int" where
  "rating_loop [] rating_class = Inr 0"
| "rating_loop (key # keys) rating_class =
     (if py_in key rating_class
      then (case map_of rating_map key of None \<Rightarrow> Inl KeyError | Some v \<Rightarrow> Inr v)
      else rating_loop keys rating_class)"

definition parse_rating :: "rating_class \<Rightarrow> exn + int" where
  "parse_rating rating_class = rating_loop (map fst rating_map) rating_class"

section \<open>parser.py: fetching and collecting\<close>

text \<open>
  One \<open>article.product_pod\<close> element: each field is what the lookup in the \<open>try\<close> block
  yields, or the exception it raises when the markup lacks the element or attribute.
\<close>

record article =
  h3_a_title :: "exn + pystr"
  price_color_text :: "exn + pystr"
  h3_a_href :: "exn + pystr"
  star_rating_class :: "exn + pystr list"

text \<open>
  What the \<open>try\<close> block of \<open>fetch_page\<close> does on one attempt: it raises a
  \<open>RequestException\<close> (timeout, connection error, error status), or it returns the parsed
  document, here the list of its product articles.
\<close>

datatype response = is_failure: Request_Exception (reason: pystr) | Document "article list"

text \<open>
  The remote host: the outcome of the \<open>n\<close>-th GET of the run, for the URL and timeout
  given.
\<close>

type_synonym network = "nat \<Rightarrow> pystr \<Rightarrow> int \<Rightarrow> response"

datatype log_line =
    Request_Error pystr int int pystr
  | Gave_Up int
  | Page_Start int pystr
  | Book_Error exn
  | Page_Found int nat

datatype event = Get pystr int | Print log_line | Sleep nat

record world =
  requests :: nat
  trace :: "event list"

definition emit :: "event \<Rightarrow> world \<Rightarrow> world" where
  "emit e w = w\<lparr>trace := trace w @ [e]\<rparr>"

definition http_get :: "network \<Rightarrow> pystr \<Rightarrow> int \<Rightarrow> world \<Rightarrow> response \<times> world" where
  "http_get net url timeout w =
     (net (requests w) url timeout, emit (Get url timeout) (w\<lparr>requests := Suc (requests w)\<rparr>))"

text \<open>
  The loop \<open>for attempt in range(retry)\<close>, over the attempts that remain. When the range
  is used up the function falls off its end and returns \<open>None\<close>.
\<close>

fun fetch_attempts ::
  "network \<Rightarrow> pystr \<Rightarrow> int \<Rightarrow> int \<Rightarrow> int list \<Rightarrow> world \<Rightarrow> article list option \<times> world" where
  "fetch_attempts net url retry timeout [] w = (None, w)"
| "fetch_attempts net url retry timeout (attempt # rest) w =
     (case http_get net url timeout w of
        (Document doc, w1) \<Rightarrow> (Some doc, w1)
      | (Request_Exception e, w1) \<Rightarrow>
          (let w2 = emit (Print (Request_Error url (attempt + 1) retry e)) w1 in
           if attempt < retry - 1
           then fetch_attempts net url retry timeout rest (emit (Sleep 2) w2)
           else (None, emit (Print (Gave_Up retry)) w2)))"

definition fetch_page ::
  "network \<Rightarrow> pystr \<Rightarrow> int \<Rightarrow> int \<Rightarrow> world \<Rightarrow> article list option \<times> world" where
  "fetch_page net url retry timeout w = fetch_attempts net url retry timeout [0..retry - 1] w"

text \<open>\<open>str\<close> of an integer, for the page number in the URL.\<close>

fun str_nat :: "nat \<Rightarrow> pystr" where
  "str_nat n = (if n < 10 then [48 + n] else str_nat (n div 10) @ [48 + n mod 10])"

definition str_int :: "int \<Rightarrow> pystr" where
  "str_int i = (if i < 0 then 45 # str_nat (nat (- i)) else str_nat (nat i))"

text \<open>The body of the \<open>try\<close> block for one article, in the order of the source.\<close>

definition extract_book :: "(pystr \<Rightarrow> real option) \<Rightarrow> pystr \<Rightarrow> article \<Rightarrow> exn + book" where
  "extract_book float base_url a =
     (case h3_a_title a of Inl e \<Rightarrow> Inl e | Inr t \<Rightarrow>
     (case price_color_text a of Inl e \<Rightarrow> Inl e | Inr price_text \<Rightarrow>
     (case parse_price float price_text of Inl e \<Rightarrow> Inl e | Inr p \<Rightarrow>
     (case h3_a_href a of Inl e \<Rightarrow> Inl e | Inr href \<Rightarrow>
     (case star_rating_class a of Inl e \<Rightarrow> Inl e | Inr cls \<Rightarrow>
     (case parse_rating (Class_Tokens cls) of Inl e \<Rightarrow> Inl e | Inr r \<Rightarrow>
        Inr \<lparr>title = Some t, price = p, rating = r,
             link = base_url @ u ''/catalogue/'' @ py_replace (u ''../'') [] href\<rparr>))))))"

fun books_loop ::
  "(pystr \<Rightarrow> real option) \<Rightarrow> pystr \<Rightarrow> article list \<Rightarrow> world \<Rightarrow> dataframe \<Rightarrow> dataframe \<times> world" where
  "books_loop float base_url [] w all_books = (all_books, w)"
| "books_loop float base_url (a # books) w all_books =
     (case extract_book float base_url a of
        Inr b \<Rightarrow> books_loop float base_url books w (all_books @ [b])
      | Inl e \<Rightarrow> books_loop float base_url books (emit (Print (Book_Error e)) w) all_books)"

definition page_url :: "pystr \<Rightarrow> int \<Rightarrow> pystr" where
  "page_url base_url page_num = base_url @ u ''/catalogue/page-'' @ str_int page_num @ u ''.html''"

fun pages_loop ::
  "network \<Rightarrow> (pystr \<Rightarrow> real option) \<Rightarrow> pystr \<Rightarrow> int list \<Rightarrow> world \<Rightarrow> dataframe \<Rightarrow> dataframe \<times> world" where
  "pages_loop net float base_url [] w all_books = (all_books, w)"
| "pages_loop net float base_url (page_num # rest) w all_books =
     (let url = page_url base_url page_num;
          w1 = emit (Print (Page_Start page_num url)) w
      in case fetch_page net url 3 10 w1 of
           (None, w2) \<Rightarrow> pages_loop net float base_url rest w2 all_books
         | (Some books, w2) \<Rightarrow>
             (case books_loop float base_url books w2 all_books of
                (all_books', w3) \<Rightarrow>
                  pages_loop net float base_url rest
                    (emit (Sleep 1) (emit (Print (Page_Found page_num (length books))) w3))
                    all_books'))"

definition parse_books ::
  "network \<Rightarrow> (pystr \<Rightarrow> real option) \<Rightarrow> pystr \<Rightarrow> int \<Rightarrow> world \<Rightarrow> dataframe \<times> world" where
  "parse_books net float base_url num_pages w =
     pages_loop net float base_url [1..num_pages] w []"

text \<open>The pauses of a run, in order.\<close>

fun sleeps :: "event list \<Rightarrow> nat list" where
  "sleeps [] = []"
| "sleeps (Sleep n # es) = n # sleeps es"
| "sleeps (e # es) = sleeps es"

text \<open>The requests and the printed lines of a run, in order.\<close>

fun gets :: "event list \<Rightarrow> (pystr \<times> int) list" where
  "gets [] = []"
| "gets (Get url t # es) = (url, t) # gets es"
| "gets (e # es) = gets es"

fun prints :: "event list \<Rightarrow> log_line list" where
  "prints [] = []"
| "prints (Print l # es) = l # prints es"
| "prints (e # es) = prints es"

text \<open>The pages a run announces, in order, each with the URL it is fetched from.\<close>

fun page_starts :: "event list \<Rightarrow> (int \<times> pystr) list" where
  "page_starts [] = []"
| "page_starts (Print (Page_Start page_num url) # es) = (page_num, url) # page_starts es"
| "page_starts (e # es) = page_starts es"

section \<open>analyze.py: the filter steps of main, in any order\<close>

text \<open>
  \<open>main\<close> threads the table through the three filters (price, keyword, rating).
  \<open>run_filters\<close> does the same for any sequence of the three steps, collecting the
  printed lines.
\<close>

datatype filter_step = By_Price | By_Keyword | By_Rating

fun run_filter ::
  "(pystr \<Rightarrow> pystr \<Rightarrow> bool) \<Rightarrow> real option \<Rightarrow> pystr option \<Rightarrow> int option \<Rightarrow> filter_step
     \<Rightarrow> dataframe \<times> report_line list \<Rightarrow> dataframe \<times> report_line list" where
  "run_filter contains max_price keyword min_rating By_Price (df, out) =
     (case filter_by_price df max_price of (df', ls) \<Rightarrow> (df', out @ ls))"
| "run_filter contains max_price keyword min_rating By_Keyword (df, out) =
     (case filter_by_keyword contains df keyword of (df', ls) \<Rightarrow> (df', out @ ls))"
| "run_filter contains max_price keyword min_rating By_Rating (df, out) =
     (case filter_by_rating df min_rating of (df', ls) \<Rightarrow> (df', out @ ls))"

definition run_filters ::
  "(pystr \<Rightarrow> pystr \<Rightarrow> bool) \<Rightarrow> real option \<Rightarrow> pystr option \<Rightarrow> int option \<Rightarrow> filter_step list
     \<Rightarrow> dataframe \<Rightarrow> dataframe \<times> report_line list" where
  "run_filters contains max_price keyword min_rating steps df =
     fold (run_filter contains max_price keyword min_rating) steps (df, [])"

text \<open>The rows a step keeps (used in the proofs only).\<close>

fun step_keeps ::
  "(pystr \<Rightarrow> pystr \<Rightarrow> bool) \<Rightarrow> real option \<Rightarrow> pystr option \<Rightarrow> int option \<Rightarrow> filter_step
     \<Rightarrow> book \<Rightarrow> bool" where
  "step_keeps contains max_price keyword min_rating By_Price b =
     (case max_price of None \<Rightarrow> True | Some p \<Rightarrow> p = 0 \<or> price b \<le> p)"
| "step_keeps contains max_price keyword min_rating By_Keyword b =
     (case keyword of None \<Rightarrow> True | Some k \<Rightarrow> k = [] \<or> title_matches contains k b)"
| "step_keeps contains max_price keyword min_rating By_Rating b =
     (case min_rating of None \<Rightarrow> True | Some r \<Rightarrow> r = 0 \<or> rating b \<ge> r)"

section \<open>The stored file: written by parser.py, loaded by analyze.py\<close>

text \<open>
  \<open>df.to_csv(path, index=False, encoding='utf-8')\<close> and \<open>pd.read_csv(path,
  encoding='utf-8')\<close> are functions of pandas; they are modelled here as pandas documents
  them, on the text of the file (code points; both sides use UTF-8). The writer is the
  \<open>csv\<close> writer with minimal quoting: a header line and one line per row, cells
  separated by commas, a cell quoted when it holds a comma, a quote (then doubled) or a
  character of the line terminator (a line feed; a carriage return is not quoted by the
  writer of Python before 3.13), a missing value written as the empty cell. The text of
  a float is the parameter \<open>float_repr\<close>.
\<close>

definition comma :: nat where "comma = 44"
definition dquote :: nat where "dquote = 34"
definition lf :: nat where "lf = 10"
definition cr :: nat where "cr = 13"

definition csv_header :: "pystr list" where
  "csv_header = [u ''title'', u ''price'', u ''rating'', u ''link'']"

definition quote_needed :: "pystr \<Rightarrow> bool" where
  "quote_needed s = (comma \<in> set s \<or> dquote \<in> set s \<or> lf \<in> set s)"

definition csv_field :: "pystr \<Rightarrow> pystr" where
  "csv_field s =
     (if quote_needed s
      then dquote # concat (map (\<lambda>c. if c = dquote then [dquote, dquote] else [c]) s) @ [dquote]
      else s)"

fun csv_fields :: "pystr list \<Rightarrow> pystr" where
  "csv_fields [] = []"
| "csv_fields [f] = csv_field f"
| "csv_fields (f # g # fs) = csv_field f @ comma # csv_fields (g # fs)"

text \<open>A row that is a single empty cell is written as a pair of quotes.\<close>

definition csv_row :: "pystr list \<Rightarrow> pystr" where
  "csv_row fs = (if fs = [[]] then [dquote, dquote] else csv_fields fs) @ [lf]"

definition cells_of :: "(real \<Rightarrow> pystr) \<Rightarrow> book \<Rightarrow> pystr list" where
  "cells_of float_repr b =
     [case title b of None \<Rightarrow> [] | Some t \<Rightarrow> t, float_repr (price b), str_int (rating b), link b]"

text \<open>
  The frame built from an empty list of dicts has no columns: its header line is
  empty. (\<open>main\<close> exits before writing in that case.)
\<close>

definition to_csv :: "(real \<Rightarrow> pystr) \<Rightarrow> dataframe \<Rightarrow> pystr" where
  "to_csv float_repr df =
     (if df = [] then [lf]
      else concat (map csv_row (csv_header # map (cells_of float_repr) df)))"

text \<open>
  The reader first splits the text into rows of cells. A quote at the start of a cell
  opens a quoted cell, in which commas and line ends are data and a doubled quote is a
  quote; a line feed or a carriage return outside quotes ends the row; empty lines are
  skipped; the end of the text inside a quoted cell is an error.
\<close>

datatype load_error = EmptyDataError | ParserError

datatype tok_state = Row_Start | Field_Start | Unquoted | Quoted | Quote_Seen

fun tokenize ::
  "tok_state \<Rightarrow> pystr \<Rightarrow> pystr list \<Rightarrow> pystr list list \<Rightarrow> pystr
     \<Rightarrow> load_error + pystr list list" where
  "tokenize Row_Start field row rows [] = Inr rows"
| "tokenize Row_Start field row rows (c # cs) =
     (if c = lf \<or> c = cr then tokenize Row_Start [] [] rows cs
      else if c = dquote then tokenize Quoted [] [] rows cs
      else if c = comma then tokenize Field_Start [] [[]] rows cs
      else tokenize Unquoted [c] [] rows cs)"
| "tokenize Field_Start field row rows [] = Inr (rows @ [row @ [[]]])"
| "tokenize Field_Start field row rows (c # cs) =
     (if c = lf \<or> c = cr then tokenize Row_Start [] [] (rows @ [row @ [[]]]) cs
      else if c = dquote then tokenize Quoted [] row rows cs
      else if c = comma then tokenize Field_Start [] (row @ [[]]) rows cs
      else tokenize Unquoted [c] row rows cs)"
| "tokenize Unquoted field row rows [] = Inr (rows @ [row @ [field]])"
| "tokenize Unquoted field row rows (c # cs) =
     (if c = lf \<or> c = cr then tokenize Row_Start [] [] (rows @ [row @ [field]]) cs
      else if c = comma then tokenize Field_Start [] (row @ [field]) rows cs
      else tokenize Unquoted (field @ [c]) row rows cs)"
| "tokenize Quoted field row rows [] = Inl ParserError"
| "tokenize Quoted field row rows (c # cs) =
     (if c = dquote then tokenize Quote_Seen field row rows cs
      else tokenize Quoted (field @ [c]) row rows cs)"
| "tokenize Quote_Seen field row rows [] = Inr (rows @ [row @ [field]])"
| "tokenize Quote_Seen field row rows (c # cs) =
     (if c = dquote then tokenize Quoted (field @ [c]) row rows cs
      else if c = lf \<or> c = cr then tokenize Row_Start [] [] (rows @ [row @ [field]]) cs
      else if c = comma then tokenize Field_Start [] (row @ [field]) rows cs
      else tokenize Unquoted (field @ [c]) row rows cs)"

text \<open>
  Then each column is converted as a whole. A cell whose text is one of the default
  missing-value markers (those of pandas 2) is missing (NaN). If every other cell of the column reads as a
  number (the parameter \<open>to_number\<close>: the integer, then the float converter) the column is
  numeric; else if every other cell is a boolean word the column is boolean; else the
  column keeps its texts.
\<close>

definition na_values :: "pystr list" where
  "na_values =
     [[], u ''#N/A'', u ''#N/A N/A'', u ''#NA'', u ''-1.#IND'', u ''-1.#QNAN'', u ''-NaN'',
      u ''-nan'', u ''1.#IND'', u ''1.#QNAN'', u ''<NA>'', u ''N/A'', u ''NA'', u ''NULL'',
      u ''NaN'', u ''None'', u ''n/a'', u ''nan'', u ''null'']"

definition true_values :: "pystr list" where
  "true_values = [u ''True'', u ''TRUE'', u ''true'']"

definition false_values :: "pystr list" where
  "false_values = [u ''False'', u ''FALSE'', u ''false'']"

datatype cell = Str pystr | Num real | Boolean bool | NaN

datatype column_kind = Numeric | Booleans | Text

definition infer_kind :: "(pystr \<Rightarrow> real option) \<Rightarrow> pystr list \<Rightarrow> column_kind" where
  "infer_kind to_number cells =
     (let present = filter (\<lambda>c. c \<notin> set na_values) cells in
      if list_all (\<lambda>c. to_number c \<noteq> None) present then Numeric
      else if list_all (\<lambda>c. c \<in> set true_values \<or> c \<in> set false_values) present then Booleans
      else Text)"

definition convert :: "(pystr \<Rightarrow> real option) \<Rightarrow> column_kind \<Rightarrow> pystr \<Rightarrow> cell" where
  "convert to_number kind c =
     (if c \<in> set na_values then NaN
      else case kind of
             Numeric \<Rightarrow> (case to_number c of None \<Rightarrow> NaN | Some x \<Rightarrow> Num x)
           | Booleans \<Rightarrow> Boolean (c \<in> set true_values)
           | Text \<Rightarrow> Str c)"

text \<open>
  The first row names the columns. A row with fewer cells than the header is filled
  with missing cells; one with more is an error (the writer produces neither).
\<close>

definition pad :: "nat \<Rightarrow> pystr list \<Rightarrow> pystr list" where
  "pad n row = row @ replicate (n - length row) []"

type_synonym frame = "pystr list \<times> cell list list"

definition read_csv :: "(pystr \<Rightarrow> real option) \<Rightarrow> pystr \<Rightarrow> load_error + frame" where
  "read_csv to_number text =
     (case tokenize Row_Start [] [] [] text of
        Inl e \<Rightarrow> Inl e
      | Inr [] \<Rightarrow> Inl EmptyDataError
      | Inr (names # rows) \<Rightarrow>
          (if list_ex (\<lambda>row. length names < length row) rows then Inl ParserError
           else
             let padded = map (pad (length names)) rows;
                 kinds = map (\<lambda>j. infer_kind to_number (map (\<lambda>row. row ! j) padded))
                           [0..<length names]
             in Inr (names, map (\<lambda>row. map2 (convert to_number) kinds row) padded)))"

text \<open>
  The files of the machine, by path. \<open>main\<close> of parser.py writes the frame to the output
  path; \<open>load_data\<close> exits with status 1 when the path does not exist or the file cannot
  be read as a table.
\<close>

type_synonym files = "pystr \<Rightarrow> pystr option"

definition save :: "(real \<Rightarrow> pystr) \<Rightarrow> dataframe \<Rightarrow> pystr \<Rightarrow> files \<Rightarrow> files" where
  "save float_repr df output fs = fs(output \<mapsto> to_csv float_repr df)"

datatype exit = SystemExit int

definition load_data :: "(pystr \<Rightarrow> real option) \<Rightarrow> files \<Rightarrow> pystr \<Rightarrow> exit + frame" where
  "load_data to_number fs filepath =
     (case fs filepath of
        None \<Rightarrow> Inl (SystemExit 1)
      | Some text \<Rightarrow>
          (case read_csv to_number text of
             Inl e \<Rightarrow> Inl (SystemExit 1)
           | Inr frame \<Rightarrow> Inr frame))"



text \<open>
  A text cell that survives the file: it is not a missing-value marker and holds no
  carriage return (which the writer does not quote and the reader takes as a line end).
\<close>

definition keeps_text :: "pystr \<Rightarrow> bool" where
  "keeps_text s = (s \<notin> set na_values \<and> cr \<notin> set s)"

text \<open>
  A plain instance of \<open>float_repr\<close> for concrete runs: the text of a non-negative amount
  in whole pence (\<open>5.0\<close>, \<open>12.5\<close>, \<open>3.25\<close>).
\<close>

definition repr_pence :: "real \<Rightarrow> pystr" where
  "repr_pence x =
     (let pence = nat \<lfloor>x * 100\<rfloor> in
      str_nat (pence div 100) @ [46] @
      (if pence mod 10 = 0 then [48 + pence mod 100 div 10]
       else [48 + pence mod 100 div 10, 48 + pence mod 10]))"

section \<open>Concrete inputs\<close>

definition book_a :: book where
  "book_a = \<lparr>title = Some (u ''The Light Between Oceans''), price = 5, rating = 4,
              link = u ''a.html''\<rparr>"

definition book_b :: book where
  "book_b = \<lparr>title = Some (u ''Sharp Objects''), price = 12.5, rating = 3,
              link = u ''b.html''\<rparr>"

definition book_c :: book where
  "book_c = \<lparr>title = None, price = 3.25, rating = 5, link = u ''c.html''\<rparr>"

definition site :: pystr where
  "site = u ''http://h''"

definition world0 :: world where
  "world0 = \<lparr>requests = 0, trace = []\<rparr>"

definition article_ok :: article where
  "article_ok = \<lparr>h3_a_title = Inr (u ''A Light in the Attic''),
                  price_color_text = Inr (pound # u ''51.77''),
                  h3_a_href = Inr (u ''../a_1/index.html''),
                  star_rating_class = Inr [u ''star-rating'', u ''Three'']\<rparr>"

definition article_bad :: article where
  "article_bad = \<lparr>h3_a_title = Inr (u ''Tipping the Velvet''),
                   price_color_text = Inr (pound # u ''n/a''),
                   h3_a_href = Inr (u ''../b_2/index.html''),
                   star_rating_class = Inr [u ''star-rating'', u ''One'']\<rparr>"

text \<open>A host on which the first three requests of the run time out.\<close>

definition net_page1_down :: network where
  "net_page1_down n url timeout =
     (if n < 3 then Request_Exception (u ''timeout'') else Document [article_ok, article_bad])"



section \<open>Properties of the filters\<close>

text \<open>
  C1, as amended. For every table and every price threshold \<open>P\<close> other than zero, the
  price filter yields exactly the subsequence of the rows whose price is at most \<open>P\<close>:
  every kept row has price at most \<open>P\<close>, every row with price above \<open>P\<close> is excluded,
  and every row with price at most \<open>P\<close> is kept.
\<close>

theorem filter_by_price_nonzero_threshold:
  "P \<noteq> 0 \<Longrightarrow>
     fst (filter_by_price df (Some P)) = filter (\<lambda>b. price b \<le> P) df
   \<and> subseq (fst (filter_by_price df (Some P))) df
   \<and> (\<forall>b \<in> set (fst (filter_by_price df (Some P))). price b \<le> P)
   \<and> (\<forall>b \<in> set df. P < price b \<longrightarrow> b \<notin> set (fst (filter_by_price df (Some P))))
   \<and> (\<forall>b \<in> set df. price b \<le> P \<longrightarrow> b \<in> set (fst (filter_by_price df (Some P))))"
  by auto

theorem filter_by_price_nonzero_threshold_witness:
  "(10::real) \<noteq> 0
   \<and> fst (filter_by_price [book_a, book_b, book_c] (Some 10)) = [book_a, book_c]
   \<and> 10 < price book_b"
  using filter_by_price_nonzero_threshold [of 10 "[book_a, book_b, book_c]"]
  by (simp add: book_a_def book_b_def book_c_def)

text \<open>
  C1 as stated fails at the threshold zero: the filter is then not applied, and a row
  priced 12.5 is kept.
\<close>

theorem filter_by_price_zero_counterexample:
  "fst (filter_by_price [book_b] (Some 0)) = [book_b] \<and> \<not> price book_b \<le> 0"
  by (simp add: book_b_def)

lemma run_filter_fst:
  "fst (run_filter c mp kw mr s (df, out)) = filter (step_keeps c mp kw mr s) df"
  by (cases s; cases mp; cases kw; cases mr) (auto intro!: filter_cong)

lemma fold_run_filter_fst:
  "fst (fold (run_filter c mp kw mr) steps (df, out)) =
     filter (\<lambda>b. list_all (\<lambda>s. step_keeps c mp kw mr s b) steps) df"
proof (induction steps arbitrary: df out)
  case Nil
  then show ?case by simp
next
  case (Cons s steps)
  obtain df' out' where r: "run_filter c mp kw mr s (df, out) = (df', out')"
    by (cases "run_filter c mp kw mr s (df, out)")
  have "df' = filter (step_keeps c mp kw mr s) df"
    using run_filter_fst [of c mp kw mr s df out] r by simp
  then show ?case using Cons.IH [of df' out'] r
    by (simp add: conj_commute)
qed

lemma run_filters_same_steps:
  assumes "set steps = set steps'"
  shows "fst (run_filters c mp kw mr steps df) = fst (run_filters c mp kw mr steps' df)"
  using assms unfolding run_filters_def fold_run_filter_fst list_all_iff by simp

text \<open>
  C9. For every table, every price threshold, keyword and rating threshold (each
  possibly absent) and every title test, the three filters applied in any of the six
  orders yield the same table as in the order of \<open>main\<close>.
\<close>

theorem filters_commute:
  "fst (run_filters c mp kw mr [By_Price, By_Rating, By_Keyword] df) =
     fst (run_filters c mp kw mr [By_Price, By_Keyword, By_Rating] df)
   \<and> fst (run_filters c mp kw mr [By_Keyword, By_Price, By_Rating] df) =
     fst (run_filters c mp kw mr [By_Price, By_Keyword, By_Rating] df)
   \<and> fst (run_filters c mp kw mr [By_Keyword, By_Rating, By_Price] df) =
     fst (run_filters c mp kw mr [By_Price, By_Keyword, By_Rating] df)
   \<and> fst (run_filters c mp kw mr [By_Rating, By_Price, By_Keyword] df) =
     fst (run_filters c mp kw mr [By_Price, By_Keyword, By_Rating] df)
   \<and> fst (run_filters c mp kw mr [By_Rating, By_Keyword, By_Price] df) =
     fst (run_filters c mp kw mr [By_Price, By_Keyword, By_Rating] df)"
  by (intro conjI run_filters_same_steps) auto

theorem filters_commute_witness:
  "fst (run_filters icontains (Some 10) (Some (u ''light'')) (Some 4)
          [By_Rating, By_Keyword, By_Price] [book_a, book_b, book_c]) = [book_a]
   \<and> fst (run_filters icontains (Some 10) (Some (u ''light'')) (Some 4)
          [By_Price, By_Keyword, By_Rating] [book_a, book_b, book_c]) = [book_a]"
  using filters_commute [of icontains "Some 10" "Some (u ''light'')" "Some 4"
      "[book_a, book_b, book_c]"]
  by (simp add: run_filters_def book_a_def book_b_def book_c_def u_def icontains_def
      title_matches_def lower_cp_def)

text \<open>
  C10. Each filter treats a falsy argument as absent: with \<open>None\<close> or zero as the price
  threshold, \<open>None\<close> or zero as the rating threshold, \<open>None\<close> or the empty string as the
  keyword, the filter returns the table unchanged and prints nothing; so a price
  threshold of zero excludes no row, whatever its price.
\<close>

theorem falsy_argument_is_no_filter:
  "filter_by_price df None = (df, []) \<and> filter_by_price df (Some 0) = (df, [])
   \<and> filter_by_rating df None = (df, []) \<and> filter_by_rating df (Some 0) = (df, [])
   \<and> filter_by_keyword contains df None = (df, [])
   \<and> filter_by_keyword contains df (Some []) = (df, [])"
  by simp

theorem falsy_argument_is_no_filter_witness:
  "filter_by_price [book_a, book_b] (Some 0) = ([book_a, book_b], [])
   \<and> 0 < price book_a \<and> 0 < price book_b
   \<and> filter_by_keyword icontains [book_c] (Some []) = ([book_c], [])"
  using falsy_argument_is_no_filter [of "[book_a, book_b]" icontains]
    falsy_argument_is_no_filter [of "[book_c]" icontains]
  by (simp add: book_a_def book_b_def)

section \<open>Properties of the field extraction\<close>

lemma rating_keys:
  "map fst rating_map = [u ''One'', u ''Two'', u ''Three'', u ''Four'', u ''Five'']"
  by (simp add: rating_map_def)

lemma rating_lookup:
  "map_of rating_map (u ''One'') = Some 1"
  "map_of rating_map (u ''Two'') = Some 2"
  "map_of rating_map (u ''Three'') = Some 3"
  "map_of rating_map (u ''Four'') = Some 4"
  "map_of rating_map (u ''Five'') = Some 5"
  by (simp_all add: rating_map_def u_def)

text \<open>
  C5. For every rating class input (a list of class tokens, or the class text),
  \<open>parse_rating\<close> never fails and returns a number from 0 to 5: the number of the first
  of One, Two, Three, Four, Five (in that order) that the input contains, and 0 when it
  contains none of them.
\<close>

theorem parse_rating_first_known_token:
  "(\<exists>n. parse_rating rc = Inr n \<and> 0 \<le> n \<and> n \<le> 5)
   \<and> (py_in (u ''One'') rc \<longrightarrow> parse_rating rc = Inr 1)
   \<and> (\<not> py_in (u ''One'') rc \<and> py_in (u ''Two'') rc \<longrightarrow> parse_rating rc = Inr 2)
   \<and> (\<not> py_in (u ''One'') rc \<and> \<not> py_in (u ''Two'') rc \<and> py_in (u ''Three'') rc
        \<longrightarrow> parse_rating rc = Inr 3)
   \<and> (\<not> py_in (u ''One'') rc \<and> \<not> py_in (u ''Two'') rc \<and> \<not> py_in (u ''Three'') rc
        \<and> py_in (u ''Four'') rc \<longrightarrow> parse_rating rc = Inr 4)
   \<and> (\<not> py_in (u ''One'') rc \<and> \<not> py_in (u ''Two'') rc \<and> \<not> py_in (u ''Three'') rc
        \<and> \<not> py_in (u ''Four'') rc \<and> py_in (u ''Five'') rc \<longrightarrow> parse_rating rc = Inr 5)
   \<and> (\<not> py_in (u ''One'') rc \<and> \<not> py_in (u ''Two'') rc \<and> \<not> py_in (u ''Three'') rc
        \<and> \<not> py_in (u ''Four'') rc \<and> \<not> py_in (u ''Five'') rc \<longrightarrow> parse_rating rc = Inr 0)"
  unfolding parse_rating_def rating_keys
  by (simp add: rating_lookup)

theorem parse_rating_first_known_token_witness:
  "parse_rating (Class_Tokens [u ''star-rating'', u ''Three'']) = Inr 3
   \<and> parse_rating (Class_Text (u ''star-rating Five One'')) = Inr 1
   \<and> parse_rating (Class_Tokens [u ''star-rating'']) = Inr 0"
  using parse_rating_first_known_token [of "Class_Tokens [u ''star-rating'', u ''Three'']"]
    parse_rating_first_known_token [of "Class_Text (u ''star-rating Five One'')"]
    parse_rating_first_known_token [of "Class_Tokens [u ''star-rating'']"]
  by (simp add: u_def)

lemma py_replace_single: "py_replace [c] [] s = filter (\<lambda>x. x \<noteq> c) s"
  by (induction s) auto

lemma dropWhile_all: "list_all P xs \<Longrightarrow> dropWhile P (xs @ ys) = dropWhile P ys"
  by (induction xs) auto

lemma strip_padded:
  assumes "X \<noteq> []" "\<not> is_space (hd X)" "\<not> is_space (last X)"
    "list_all is_space ws1" "list_all is_space ws2"
  shows "strip (ws1 @ X @ ws2) = X"
proof -
  obtain x X' where X: "X = x # X'" using assms(1) by (cases X) auto
  have a: "dropWhile is_space (ws1 @ X @ ws2) = X @ ws2"
    using assms(2,4) X by (simp add: dropWhile_all)
  obtain l X'' where R: "rev X = l # X''" using assms(1) by (cases "rev X") auto
  have "l = last X" using R assms(1) by (metis list.sel(1) hd_rev)
  then have "\<not> is_space l" using assms(3) by simp
  moreover have "list_all is_space (rev ws2)" using assms(5) by (simp add: list_all_iff)
  ultimately have "dropWhile is_space (rev ws2 @ rev X) = rev X"
    using R by (simp add: dropWhile_all)
  then show ?thesis unfolding strip_def a by simp
qed

lemma parse_price_remainder:
  "parse_price float price_text =
     (case float (strip (filter (\<lambda>c. c \<noteq> pound \<and> c \<noteq> artifact) price_text)) of
        None \<Rightarrow> Inl ValueError | Some x \<Rightarrow> Inr x)"
  unfolding parse_price_def py_replace_single by (simp add: conj_commute)

lemma space_not_symbol: "is_space c \<Longrightarrow> c \<noteq> pound \<and> c \<noteq> artifact"
  by (auto simp: is_space_def pound_def artifact_def)

lemma filter_spaces:
  "list_all is_space ws \<Longrightarrow> filter (\<lambda>c. c \<noteq> pound \<and> c \<noteq> artifact) ws = ws"
  by (induction ws) (auto dest: space_not_symbol)

text \<open>
  C6. Take a price string made of the currency sign and a text \<open>X\<close> that has no currency
  sign or artifact in it and no whitespace at its ends (a decimal numeral such as 12.34
  is such a text), with or without the artifact before the sign and whitespace around.
  \<open>parse_price\<close> strips sign, artifact and whitespace and yields what \<open>float\<close> makes of
  \<open>X\<close>; when \<open>X\<close> is not numeric it raises \<open>ValueError\<close>, and then the article is dropped:
  the loop over the page logs the error and goes on with the remaining articles.
\<close>

theorem parse_price_currency_string:
  "X \<noteq> [] \<Longrightarrow> \<not> is_space (hd X) \<Longrightarrow> \<not> is_space (last X) \<Longrightarrow>
   pound \<notin> set X \<Longrightarrow> artifact \<notin> set X \<Longrightarrow>
   list_all is_space ws1 \<Longrightarrow> list_all is_space ws2 \<Longrightarrow> a = [] \<or> a = [artifact] \<Longrightarrow>
     parse_price float (ws1 @ a @ pound # X @ ws2) =
       (case float X of None \<Rightarrow> Inl ValueError | Some x \<Rightarrow> Inr x)
   \<and> (float X = None \<longrightarrow> h3_a_title art = Inr t \<longrightarrow>
        price_color_text art = Inr (ws1 @ a @ pound # X @ ws2) \<longrightarrow>
          extract_book float base_url art = Inl ValueError
        \<and> books_loop float base_url (art # rest) w all_books =
            books_loop float base_url rest (emit (Print (Book_Error ValueError)) w) all_books)"
proof -
  assume h: "X \<noteq> []" "\<not> is_space (hd X)" "\<not> is_space (last X)"
    "pound \<notin> set X" "artifact \<notin> set X"
    "list_all is_space ws1" "list_all is_space ws2" "a = [] \<or> a = [artifact]"
  have fa: "filter (\<lambda>c. c \<noteq> pound \<and> c \<noteq> artifact) a = []" using h(8) by auto
  have fx: "filter (\<lambda>c. c \<noteq> pound \<and> c \<noteq> artifact) X = X"
    using h(4,5) by (simp add: filter_id_conv) blast
  have "filter (\<lambda>c. c \<noteq> pound \<and> c \<noteq> artifact) (ws1 @ a @ pound # X @ ws2) = ws1 @ X @ ws2"
    using fa fx h(6,7) by (simp add: filter_spaces)
  then have p: "parse_price float (ws1 @ a @ pound # X @ ws2) =
       (case float X of None \<Rightarrow> Inl ValueError | Some x \<Rightarrow> Inr x)"
    unfolding parse_price_remainder using strip_padded [OF h(1,2,3,6,7)] by simp
  show ?thesis using p by (simp add: extract_book_def)
qed

theorem parse_price_currency_string_witness:
  "parse_price float_decimal (u '' '' @ [artifact] @ pound # u ''12.34'' @ u '' '') = Inr 12.34
   \<and> parse_price float_decimal ([] @ [] @ pound # u ''12.34'' @ []) = Inr 12.34
   \<and> float_decimal (u ''n/a'') = None
   \<and> extract_book float_decimal site article_bad = Inl ValueError
   \<and> books_loop float_decimal site (article_bad # [article_ok]) world0 [] =
       books_loop float_decimal site [article_ok]
         (emit (Print (Book_Error ValueError)) world0) []"
  using parse_price_currency_string
      [of "u ''12.34''" "u '' ''" "u '' ''" "[artifact]" float_decimal]
    parse_price_currency_string [of "u ''12.34''" "[]" "[]" "[]" float_decimal]
    parse_price_currency_string [of "u ''n/a''" "[]" "[]" "[]" float_decimal article_bad
      "u ''Tipping the Velvet''" site "[article_ok]" world0 "[]"]
  by (simp add: u_def is_space_def pound_def artifact_def float_decimal_def is_digit_def
      digits_value_def article_bad_def)

section \<open>Properties of fetching and collecting\<close>

lemma gets_append: "gets (xs @ ys) = gets xs @ gets ys"
  by (induction xs rule: gets.induct) auto

lemma prints_append: "prints (xs @ ys) = prints xs @ prints ys"
  by (induction xs rule: prints.induct) auto

lemma sleeps_append: "sleeps (xs @ ys) = sleeps xs @ sleeps ys"
  by (induction xs rule: sleeps.induct) auto

text \<open>
  The attempts \<open>a, a + 1, ..., retry - 1\<close> when each of them fails: \<open>k\<close> requests, one
  error line each, a pause of 2 after each but the last, then the give-up line.
\<close>

lemma fetch_attempts_all_fail:
  "\<lbrakk>a \<le> retry - 1; \<forall>i < k. is_failure (net (requests w + i) url timeout);
    int k = retry - a\<rbrakk> \<Longrightarrow>
   \<exists>new. fetch_attempts net url retry timeout [a..retry - 1] w
       = (None, \<lparr>requests = requests w + k, trace = trace w @ new\<rparr>)
     \<and> gets new = replicate k (url, timeout)
     \<and> prints new =
         map (\<lambda>i. Request_Error url (a + int i + 1) retry
                (reason (net (requests w + i) url timeout))) [0..<k]
         @ [Gave_Up retry]
     \<and> sleeps new = replicate (k - 1) 2"
proof (induction k arbitrary: a w)
  case 0
  then show ?case by simp
next
  case (Suc k)
  have up: "[a..retry - 1] = a # [a + 1..retry - 1]"
    using Suc.prems(1) by (simp add: upto_rec1)
  from Suc.prems(2) have f0: "is_failure (net (requests w) url timeout)" by force
  then obtain e where e: "net (requests w) url timeout = Request_Exception e"
    by (cases "net (requests w) url timeout") auto
  let ?w1 = "emit (Get url timeout) (w\<lparr>requests := Suc (requests w)\<rparr>)"
  let ?w2 = "emit (Print (Request_Error url (a + 1) retry e)) ?w1"
  show ?case
  proof (cases "k = 0")
    case True
    then have last: "\<not> a < retry - 1" using Suc.prems(3) by simp
    show ?thesis
      apply (rule exI [of _ "[Get url timeout, Print (Request_Error url (a + 1) retry e),
          Print (Gave_Up retry)]"])
      using True last e up by (simp add: http_get_def emit_def Let_def)
  next
    case False
    then have lt: "a < retry - 1" using Suc.prems(3) by simp
    let ?w3 = "emit (Sleep 2) ?w2"
    have r3: "requests ?w3 = Suc (requests w)" by (simp add: emit_def)
    have "\<forall>i<k. is_failure (net (requests ?w3 + i) url timeout)"
      using Suc.prems(2) r3 by auto
    from Suc.IH [OF _ this, of "a + 1"] lt Suc.prems(3)
    obtain new where n: "fetch_attempts net url retry timeout [a + 1..retry - 1] ?w3
       = (None, \<lparr>requests = requests ?w3 + k, trace = trace ?w3 @ new\<rparr>)"
      "gets new = replicate k (url, timeout)"
      "prints new =
         map (\<lambda>i. Request_Error url (a + 1 + int i + 1) retry
                (reason (net (requests ?w3 + i) url timeout))) [0..<k]
         @ [Gave_Up retry]"
      "sleeps new = replicate (k - 1) 2"
      by auto
    have step: "fetch_attempts net url retry timeout [a..retry - 1] w =
        fetch_attempts net url retry timeout [a + 1..retry - 1] ?w3"
      using e lt up by (simp add: http_get_def Let_def)
    have m: "map (\<lambda>i. Request_Error url (a + int i + 1) retry
                    (reason (net (requests w + i) url timeout))) [0..<Suc k]
       = Request_Error url (a + 1) retry e #
         map (\<lambda>i. Request_Error url (a + 1 + int i + 1) retry
                (reason (net (requests ?w3 + i) url timeout))) [0..<k]"
      using e r3 by (simp add: upt_conv_Cons map_Suc_upt [symmetric] del: upt_Suc)
    have rep: "(2::nat) # replicate (k - 1) 2 = replicate k 2"
      using False by (cases k) auto
    show ?thesis
      apply (rule exI [of _ "[Get url timeout, Print (Request_Error url (a + 1) retry e),
          Sleep 2] @ new"])
      using step n m rep
      by (simp add: emit_def gets_append prints_append sleeps_append add.commute)
  qed
qed

text \<open>
  The same attempts with the events in the order they happen: each attempt is its
  request, then its error line, then the pause of 2 when another attempt follows and
  the give-up line when none does.
\<close>

lemma fetch_attempts_all_fail_trace:
  "\<lbrakk>a \<le> retry - 1; \<forall>i < k. is_failure (net (requests w + i) url timeout);
    int k = retry - a\<rbrakk> \<Longrightarrow>
   fetch_attempts net url retry timeout [a..retry - 1] w =
     (None,
      \<lparr>requests = requests w + k,
         trace = trace w @
           concat (map (\<lambda>i. [Get url timeout,
                               Print (Request_Error url (a + int i + 1) retry
                                        (reason (net (requests w + i) url timeout))),
                               if a + int i < retry - 1 then Sleep 2
                               else Print (Gave_Up retry)])
                     [0..<k])\<rparr>)"
proof (induction k arbitrary: a w)
  case 0
  then show ?case by simp
next
  case (Suc k)
  have up: "[a..retry - 1] = a # [a + 1..retry - 1]"
    using Suc.prems(1) by (simp add: upto_rec1)
  from Suc.prems(2) have "is_failure (net (requests w) url timeout)" by force
  then obtain e where e: "net (requests w) url timeout = Request_Exception e"
    by (cases "net (requests w) url timeout") auto
  let ?w2 = "emit (Print (Request_Error url (a + 1) retry e))
               (emit (Get url timeout) (w\<lparr>requests := Suc (requests w)\<rparr>))"
  have split: "[0..<Suc k] = 0 # map Suc [0..<k]"
    by (simp add: upt_conv_Cons map_Suc_upt del: upt_Suc)
  show ?case
  proof (cases "k = 0")
    case True
    then have last: "\<not> a < retry - 1" using Suc.prems(3) by simp
    show ?thesis
      using True last e up by (simp add: http_get_def emit_def Let_def)
  next
    case False
    then have lt: "a < retry - 1" using Suc.prems(3) by simp
    let ?w3 = "emit (Sleep 2) ?w2"
    have r3: "requests ?w3 = Suc (requests w)" by (simp add: emit_def)
    have "\<forall>i<k. is_failure (net (requests ?w3 + i) url timeout)"
      using Suc.prems(2) r3 by auto
    from Suc.IH [OF _ this, of "a + 1"] lt Suc.prems(3)
    have ih: "fetch_attempts net url retry timeout [a + 1..retry - 1] ?w3 =
     (None,
      \<lparr>requests = requests ?w3 + k,
         trace = trace ?w3 @
           concat (map (\<lambda>i. [Get url timeout,
                               Print (Request_Error url (a + 1 + int i + 1) retry
                                        (reason (net (requests ?w3 + i) url timeout))),
                               if a + 1 + int i < retry - 1 then Sleep 2
                               else Print (Gave_Up retry)])
                     [0..<k])\<rparr>)"
      by simp
    have step: "fetch_attempts net url retry timeout [a..retry - 1] w =
        fetch_attempts net url retry timeout [a + 1..retry - 1] ?w3"
      using e lt up by (simp add: http_get_def Let_def)
    show ?thesis
      unfolding step ih split using e lt
      by (simp add: emit_def comp_def add.commute add.left_commute)
  qed
qed

text \<open>What the two inner loops add to a run: no page announcement, and no lost record.\<close>

lemma page_starts_append: "page_starts (xs @ ys) = page_starts xs @ page_starts ys"
  by (induction xs rule: page_starts.induct) auto

lemma fetch_attempts_appends:
  "\<exists>new. trace (snd (fetch_attempts net url retry timeout attempts w)) = trace w @ new
     \<and> page_starts new = []
     \<and> (attempts \<noteq> [] \<longrightarrow> (url, timeout) \<in> set (gets new))"
proof (induction attempts arbitrary: w)
  case Nil
  then show ?case by simp
next
  case (Cons attempt rest)
  let ?w1 = "emit (Get url timeout) (w\<lparr>requests := Suc (requests w)\<rparr>)"
  show ?case
  proof (cases "net (requests w) url timeout")
    case (Document doc)
    then show ?thesis
      by (intro exI [of _ "[Get url timeout]"]) (simp add: http_get_def emit_def)
  next
    case (Request_Exception e)
    let ?w2 = "emit (Print (Request_Error url (attempt + 1) retry e)) ?w1"
    show ?thesis
    proof (cases "attempt < retry - 1")
      case True
      obtain new where n:
        "trace (snd (fetch_attempts net url retry timeout rest (emit (Sleep 2) ?w2))) =
           trace (emit (Sleep 2) ?w2) @ new" "page_starts new = []"
        using Cons.IH [of "emit (Sleep 2) ?w2"] by blast
      show ?thesis
        apply (rule exI [of _ "[Get url timeout,
            Print (Request_Error url (attempt + 1) retry e), Sleep 2] @ new"])
        using Request_Exception True n
        by (simp add: http_get_def emit_def Let_def page_starts_append)
    next
      case False
      show ?thesis
        apply (rule exI [of _ "[Get url timeout,
            Print (Request_Error url (attempt + 1) retry e), Print (Gave_Up retry)]"])
        using Request_Exception False by (simp add: http_get_def emit_def Let_def)
    qed
  qed
qed

lemma books_loop_appends:
  "\<exists>new bs. books_loop float base_url books w all_books =
       (all_books @ bs, w\<lparr>trace := trace w @ new\<rparr>)
     \<and> page_starts new = [] \<and> gets new = []"
proof (induction books arbitrary: w all_books)
  case Nil
  show ?case by (intro exI [of _ "[]"]) simp
next
  case (Cons a books)
  show ?case
  proof (cases "extract_book float base_url a")
    case (Inr b)
    obtain new bs where "books_loop float base_url books w (all_books @ [b]) =
        ((all_books @ [b]) @ bs, w\<lparr>trace := trace w @ new\<rparr>)"
      "page_starts new = []" "gets new = []"
      using Cons.IH [of w "all_books @ [b]"] by blast
    then show ?thesis using Inr
      by (intro exI [of _ new] exI [of _ "b # bs"]) simp
  next
    case (Inl e)
    let ?w1 = "emit (Print (Book_Error e)) w"
    obtain new bs where "books_loop float base_url books ?w1 all_books =
        (all_books @ bs, ?w1\<lparr>trace := trace ?w1 @ new\<rparr>)"
      "page_starts new = []" "gets new = []"
      using Cons.IH [of ?w1 all_books] by blast
    then show ?thesis using Inl
      by (intro exI [of _ "Print (Book_Error e) # new"] exI [of _ bs]) (simp add: emit_def)
  qed
qed

text \<open>
  Whatever the host does, the loop over the pages announces and requests every page of
  its list, in order, and keeps the records collected so far.
\<close>

lemma pages_loop_covers:
  "\<exists>new bs. fst (pages_loop net float base_url pages w all_books) = all_books @ bs
     \<and> trace (snd (pages_loop net float base_url pages w all_books)) = trace w @ new
     \<and> page_starts new = map (\<lambda>p. (p, page_url base_url p)) pages
     \<and> (\<forall>q \<in> set pages. (page_url base_url q, 10) \<in> set (gets new))"
proof (induction pages arbitrary: w all_books)
  case Nil
  then show ?case by simp
next
  case (Cons p rest)
  let ?url = "page_url base_url p"
  let ?w1 = "emit (Print (Page_Start p ?url)) w"
  obtain soup w2 where f: "fetch_page net ?url 3 10 ?w1 = (soup, w2)"
    by (cases "fetch_page net ?url 3 10 ?w1")
  have "[0..3 - 1] \<noteq> ([]::int list)" by (simp add: upto_rec1)
  then obtain n1 where n1: "trace w2 = trace ?w1 @ n1" "page_starts n1 = []"
    "(?url, 10) \<in> set (gets n1)"
    using fetch_attempts_appends [of net ?url 3 10 "[0..3 - 1]" ?w1] f
    unfolding fetch_page_def by auto
  show ?case
  proof (cases soup)
    case None
    obtain new bs where r:
      "fst (pages_loop net float base_url rest w2 all_books) = all_books @ bs"
      "trace (snd (pages_loop net float base_url rest w2 all_books)) = trace w2 @ new"
      "page_starts new = map (\<lambda>p. (p, page_url base_url p)) rest"
      "\<forall>q \<in> set rest. (page_url base_url q, 10) \<in> set (gets new)"
      using Cons.IH [of w2 all_books] by blast
    show ?thesis
      apply (rule exI [of _ "Print (Page_Start p ?url) # n1 @ new"])
      apply (rule exI [of _ bs])
      using None f n1 r
      by (auto simp: Let_def emit_def page_starts_append gets_append)
  next
    case (Some books)
    obtain n2 bs2 where b: "books_loop float base_url books w2 all_books =
        (all_books @ bs2, w2\<lparr>trace := trace w2 @ n2\<rparr>)"
      "page_starts n2 = []" "gets n2 = []"
      using books_loop_appends [of float base_url books w2 all_books] by blast
    let ?w4 = "emit (Sleep 1) (emit (Print (Page_Found p (length books)))
                 (w2\<lparr>trace := trace w2 @ n2\<rparr>))"
    obtain new bs where r:
      "fst (pages_loop net float base_url rest ?w4 (all_books @ bs2)) = (all_books @ bs2) @ bs"
      "trace (snd (pages_loop net float base_url rest ?w4 (all_books @ bs2))) = trace ?w4 @ new"
      "page_starts new = map (\<lambda>p. (p, page_url base_url p)) rest"
      "\<forall>q \<in> set rest. (page_url base_url q, 10) \<in> set (gets new)"
      using Cons.IH [of ?w4 "all_books @ bs2"] by blast
    show ?thesis
      apply (rule exI [of _ "Print (Page_Start p ?url) # n1 @ n2 @
          [Print (Page_Found p (length books)), Sleep 1] @ new"])
      apply (rule exI [of _ "bs2 @ bs"])
      using Some f n1 b r
      by (auto simp: Let_def emit_def page_starts_append gets_append)
  qed
qed

text \<open>
  C4. For every URL, timeout and attempt count \<open>retry\<close> of at least 1: when every attempt
  fails, \<open>fetch_page\<close> makes exactly \<open>retry\<close> requests; each is followed by its error line
  (numbered 1 to \<open>retry\<close>), then by the pause of 2 when another attempt follows, so that
  consecutive attempts are separated by one pause (\<open>retry - 1\<close> pauses), and the last by
  the give-up line; the result is \<open>None\<close>. Such a failure does not abort the run: in
  \<open>parse_books\<close> a page whose three attempts fail adds no record and the loop goes on
  with the remaining pages; and whatever fails, every page of the list is announced
  and requested, in order, and the records collected so far are kept.
\<close>

theorem fetch_page_exhausted:
  "(1 \<le> retry \<longrightarrow> (\<forall>i < nat retry. is_failure (net (requests w + i) url timeout)) \<longrightarrow>
      fetch_page net url retry timeout w =
        (None,
         \<lparr>requests = requests w + nat retry,
            trace = trace w @
              concat (map (\<lambda>i. [Get url timeout,
                                  Print (Request_Error url (int i + 1) retry
                                           (reason (net (requests w + i) url timeout))),
                                  if int i < retry - 1 then Sleep 2
                                  else Print (Gave_Up retry)])
                        [0..<nat retry])\<rparr>))
   \<and> ((\<forall>i < 3. is_failure (net (requests w + i) (page_url base_url page_num) 10)) \<longrightarrow>
        pages_loop net float base_url (page_num # rest) w all_books =
          pages_loop net float base_url rest
            \<lparr>requests = requests w + 3,
               trace = trace w @
                 Print (Page_Start page_num (page_url base_url page_num)) #
                 concat (map (\<lambda>i. [Get (page_url base_url page_num) 10,
                                     Print (Request_Error (page_url base_url page_num)
                                              (int i + 1) 3
                                              (reason (net (requests w + i)
                                                         (page_url base_url page_num) 10))),
                                     if int i < 2 then Sleep 2 else Print (Gave_Up 3)])
                           [0..<3])\<rparr>
            all_books)
   \<and> (\<exists>new bs. fst (pages_loop net float base_url pages w all_books) = all_books @ bs
        \<and> trace (snd (pages_loop net float base_url pages w all_books)) = trace w @ new
        \<and> page_starts new = map (\<lambda>p. (p, page_url base_url p)) pages
        \<and> (\<forall>q \<in> set pages. (page_url base_url q, 10) \<in> set (gets new)))"
proof (intro conjI impI)
  assume r: "1 \<le> retry"
    and f: "\<forall>i < nat retry. is_failure (net (requests w + i) url timeout)"
  show "fetch_page net url retry timeout w =
        (None,
         \<lparr>requests = requests w + nat retry,
            trace = trace w @
              concat (map (\<lambda>i. [Get url timeout,
                                  Print (Request_Error url (int i + 1) retry
                                           (reason (net (requests w + i) url timeout))),
                                  if int i < retry - 1 then Sleep 2
                                  else Print (Gave_Up retry)])
                        [0..<nat retry])\<rparr>)"
    using fetch_attempts_all_fail_trace [of 0 retry "nat retry" net w url timeout] r f
    unfolding fetch_page_def by simp
next
  let ?url = "page_url base_url page_num"
  let ?w1 = "emit (Print (Page_Start page_num ?url)) w"
  assume f: "\<forall>i < 3. is_failure (net (requests w + i) ?url 10)"
  have "\<forall>i < nat 3. is_failure (net (requests ?w1 + i) ?url 10)"
    using f by (simp add: emit_def)
  from fetch_attempts_all_fail_trace [of 0 3 "nat 3" net ?w1 ?url 10, OF _ this]
  have "fetch_page net ?url 3 10 ?w1 =
      (None,
       \<lparr>requests = requests w + 3,
          trace = trace w @ Print (Page_Start page_num ?url) #
            concat (map (\<lambda>i. [Get ?url 10,
                                Print (Request_Error ?url (int i + 1) 3
                                         (reason (net (requests w + i) ?url 10))),
                                if int i < 2 then Sleep 2 else Print (Gave_Up 3)])
                      [0..<3])\<rparr>)"
    unfolding fetch_page_def by (simp add: emit_def)
  then show "pages_loop net float base_url (page_num # rest) w all_books =
          pages_loop net float base_url rest
            \<lparr>requests = requests w + 3,
               trace = trace w @ Print (Page_Start page_num ?url) #
                 concat (map (\<lambda>i. [Get ?url 10,
                                     Print (Request_Error ?url (int i + 1) 3
                                              (reason (net (requests w + i) ?url 10))),
                                     if int i < 2 then Sleep 2 else Print (Gave_Up 3)])
                           [0..<3])\<rparr>
            all_books"
    by (simp add: Let_def)
next
  show "\<exists>new bs. fst (pages_loop net float base_url pages w all_books) = all_books @ bs
        \<and> trace (snd (pages_loop net float base_url pages w all_books)) = trace w @ new
        \<and> page_starts new = map (\<lambda>p. (p, page_url base_url p)) pages
        \<and> (\<forall>q \<in> set pages. (page_url base_url q, 10) \<in> set (gets new))"
    by (rule pages_loop_covers)
qed

theorem fetch_page_exhausted_witness:
  "fetch_page net_page1_down (u ''x'') 3 10 world0 =
     (None, \<lparr>requests = 3,
             trace = [Get (u ''x'') 10, Print (Request_Error (u ''x'') 1 3 (u ''timeout'')),
                      Sleep 2,
                      Get (u ''x'') 10, Print (Request_Error (u ''x'') 2 3 (u ''timeout'')),
                      Sleep 2,
                      Get (u ''x'') 10, Print (Request_Error (u ''x'') 3 3 (u ''timeout'')),
                      Print (Gave_Up 3)]\<rparr>)
   \<and> fst (parse_books net_page1_down float_decimal site 2 world0) =
       [\<lparr>title = Some (u ''A Light in the Attic''), price = 51.77, rating = 3,
         link = u ''http://h/catalogue/a_1/index.html''\<rparr>]
   \<and> page_starts (trace (snd (parse_books net_page1_down float_decimal site 2 world0))) =
       [(1, page_url site 1), (2, page_url site 2)]
   \<and> gets (trace (snd (parse_books net_page1_down float_decimal site 2 world0))) =
       [(page_url site 1, 10), (page_url site 1, 10), (page_url site 1, 10),
        (page_url site 2, 10)]"
  using fetch_page_exhausted [of 3 net_page1_down world0 "u ''x''" 10 site 1 float_decimal
      "[2]" "[]" "[1, 2]"]
  by (simp add: parse_books_def upto_rec1 fetch_page_def http_get_def emit_def Let_def
      net_page1_down_def world0_def extract_book_def article_ok_def article_bad_def
      parse_price_def py_replace_single strip_def float_decimal_def is_digit_def
      is_space_def pound_def artifact_def u_def digits_value_def parse_rating_def
      rating_map_def site_def)

text \<open>
  A page whose fetch is given up is followed by no pause: the loop goes straight to the
  next page (the \<open>continue\<close> comes before \<open>time.sleep(1)\<close>).
\<close>

lemma failed_page_is_not_paced:
  assumes "\<forall>i < 3. is_failure (net (requests w + i) (page_url base_url page_num) 10)"
  shows "\<exists>new. pages_loop net float base_url (page_num # rest) w all_books =
            pages_loop net float base_url rest
              \<lparr>requests = requests w + 3, trace = trace w @ new\<rparr> all_books
          \<and> sleeps new = [2, 2]"
proof -
  let ?url = "page_url base_url page_num"
  let ?w1 = "emit (Print (Page_Start page_num ?url)) w"
  have "\<forall>i < nat 3. is_failure (net (requests ?w1 + i) ?url 10)"
    using assms by (simp add: emit_def)
  from fetch_attempts_all_fail [of 0 3 "nat 3" net ?w1 ?url 10, OF _ this]
  obtain new where n: "fetch_page net ?url 3 10 ?w1 =
      (None, \<lparr>requests = requests ?w1 + nat 3, trace = trace ?w1 @ new\<rparr>)"
    "sleeps new = replicate (nat 3 - 1) 2"
    unfolding fetch_page_def by auto
  have "sleeps (Print (Page_Start page_num ?url) # new) = [2, 2]"
    using n(2) by (simp add: numeral_2_eq_2)
  moreover have "pages_loop net float base_url (page_num # rest) w all_books =
      pages_loop net float base_url rest
        \<lparr>requests = requests w + 3,
           trace = trace w @ Print (Page_Start page_num ?url) # new\<rparr> all_books"
    using n(1) by (simp add: Let_def emit_def)
  ultimately show ?thesis by blast
qed

text \<open>
  C3 fails on the code. A run over two pages on a host where the three attempts for
  page 1 fail and page 2 loads: the only pause of 1 comes after page 2; after the
  give-up line of page 1 the next event is the start of page 2.
\<close>

theorem parse_books_failed_page_trace:
  "trace (snd (parse_books net_page1_down float_decimal site 2 world0)) =
     [Print (Page_Start 1 (page_url site 1)),
      Get (page_url site 1) 10,
      Print (Request_Error (page_url site 1) 1 3 (u ''timeout'')), Sleep 2,
      Get (page_url site 1) 10,
      Print (Request_Error (page_url site 1) 2 3 (u ''timeout'')), Sleep 2,
      Get (page_url site 1) 10,
      Print (Request_Error (page_url site 1) 3 3 (u ''timeout'')),
      Print (Gave_Up 3),
      Print (Page_Start 2 (page_url site 2)),
      Get (page_url site 2) 10,
      Print (Book_Error ValueError),
      Print (Page_Found 2 2), Sleep 1]
   \<and> sleeps (trace (snd (parse_books net_page1_down float_decimal site 2 world0))) = [2, 2, 1]"
  by (simp add: parse_books_def upto_rec1 fetch_page_def http_get_def emit_def Let_def
      net_page1_down_def world0_def extract_book_def article_ok_def article_bad_def
      parse_price_def py_replace_single strip_def float_decimal_def is_digit_def
      is_space_def pound_def artifact_def u_def digits_value_def parse_rating_def
      rating_map_def)

section \<open>Properties of the report\<close>

lemma of_int_sum_list_map:
  "real_of_int (sum_list (map f xs)) = sum_list (map (\<lambda>x. real_of_int (f x)) xs)"
  by (induction xs) auto

lemma display_rows_present:
  "\<forall>b \<in> set xs. title b \<noteq> None \<Longrightarrow>
   display_rows xs =
     Inr (map (\<lambda>b. Display_Row (shorten 50 (the (title b))) (price b) (rating b)
                      (shorten 40 (link b))) xs)"
  by (induction xs) auto

lemma display_rows_missing:
  "\<exists>b \<in> set xs. title b = None \<Longrightarrow> display_rows xs = Inl TypeError"
proof (induction xs)
  case Nil
  then show ?case by simp
next
  case (Cons b xs)
  then show ?case
    by (cases "title b"; cases "\<exists>b \<in> set xs. title b = None") (auto split: sum.splits)
qed

lemma head_nonnegative: "0 \<le> n \<Longrightarrow> head df n = take (nat n) df"
  by (simp add: head_def)

text \<open>
  The report of a table that is not empty and whose displayed rows all have a title:
  the counts of all rows and of the rows shown, the rows of \<open>head\<close> (for a cap that is
  not negative the first \<open>cap\<close> rows, fewer when the table is shorter) with title and
  link shortened, and the statistics of the whole table.
\<close>

lemma display_results_titled:
  assumes "df \<noteq> []" and "\<forall>b \<in> set (head df top_n). title b \<noteq> None"
  shows "display_results df top_n =
      Inr [Rule, Found_Shown (length df) (length (head df top_n)), Rule,
           Table (map (\<lambda>b. Display_Row (shorten 50 (the (title b))) (price b) (rating b)
                              (shorten 40 (link b))) (head df top_n)),
           Rule, Stats_Header,
           Mean_Price (sum_list (map price df) / real (length df)),
           Min_Price (Min (price ` set df)),
           Max_Price (Max (price ` set df)),
           Mean_Rating (real_of_int (sum_list (map rating df)) / real (length df)),
           Rule]"
proof -
  obtain b bs where df: "df = b # bs" using assms(1) by (cases df) auto
  have mn: "fold min (map price bs) (price b) = Min (price ` set df)"
    unfolding df using Min.set_eq_fold [of "price b" "map price bs"] by simp
  have mx: "fold max (map price bs) (price b) = Max (price ` set df)"
    unfolding df using Max.set_eq_fold [of "price b" "map price bs"] by simp
  have mr: "mean (map (\<lambda>r. real_of_int (rating r)) df) =
      real_of_int (sum_list (map rating df)) / real (length df)"
    unfolding mean_def by (simp add: of_int_sum_list_map)
  show ?thesis
    using display_rows_present [OF assms(2)] mn mx mr unfolding df
    by (simp add: Let_def mean_def)
qed

lemma display_results_rows_shown:
  assumes "df \<noteq> []" and "0 \<le> top_n" and "display_results df top_n = Inr out"
  shows "int (length (table_rows out)) \<le> top_n
       \<and> length (table_rows out) = min (nat top_n) (length df)"
proof -
  have "\<forall>b \<in> set (head df top_n). title b \<noteq> None"
  proof (rule ccontr)
    assume "\<not> (\<forall>b \<in> set (head df top_n). title b \<noteq> None)"
    then have "display_rows (head df top_n) = Inl TypeError"
      using display_rows_missing [of "head df top_n"] by auto
    then show False using assms(1,3) by (cases df) (auto simp: Let_def)
  qed
  from display_results_titled [OF assms(1) this] assms(2,3)
  show ?thesis by (auto simp: head_nonnegative)
qed

lemma display_results_empty: "display_results [] top_n = Inr [No_Records]"
  by simp

text \<open>
  C8 fails on the code. The claim holds of an empty table (only the notice) and of a
  table whose displayed rows have titles, as the lemmas above show. But a table that
  is not empty and has a displayed row without title (an empty title cell of the file
  loads as missing) is not rendered at all: \<open>len(x)\<close> in the title pass raises
  \<open>TypeError\<close> before anything is printed, so neither rows nor statistics appear. The
  same table without that row is rendered, and \<open>filter_by_keyword\<close> accepts the row (it
  passes \<open>na=False\<close> for this case).
\<close>

theorem display_results_missing_title_raises:
  "display_results [book_a, book_c] 10 = Inl TypeError
   \<and> display_results [book_a] 10 =
       Inr [Rule, Found_Shown 1 1, Rule,
            Table [Display_Row (u ''The Light Between Oceans'') 5 4 (u ''a.html'')],
            Rule, Stats_Header, Mean_Price 5, Min_Price 5, Max_Price 5, Mean_Rating 4,
            Rule]
   \<and> fst (filter_by_keyword icontains [book_a, book_c] (Some (u ''light''))) = [book_a]"
  by (simp add: book_a_def book_c_def head_def Let_def mean_def shorten_def u_def
      icontains_def title_matches_def lower_cp_def)

section \<open>Properties of the stored file\<close>


lemma tok_row_start_args:
  "tokenize Row_Start field row rows t = tokenize Row_Start [] [] rows t"
  by (cases t) simp_all

lemma tok_field_start_args:
  "tokenize Field_Start field row rows t = tokenize Field_Start [] row rows t"
  by (cases t) simp_all















lemma keeps_textD: "keeps_text s \<Longrightarrow> s \<notin> set na_values \<and> cr \<notin> set s"
  by (simp add: keeps_text_def)








text \<open>
  The other conditions are needed as well: a column whose titles all read as numbers
  is loaded as numbers, and the empty sequence is written without columns, which the
  loader rejects.
\<close>

lemma csv_numeric_title_column:
  "load_data float_decimal
     (save repr_pence [book_a\<lparr>title := Some (u ''1984'')\<rparr>] (u ''data/raw_data.csv'') Map.empty)
     (u ''data/raw_data.csv'') =
     Inr (csv_header, [[Num 1984, Num 5, Num 4, Str (u ''a.html'')]])"
  by (simp add: load_data_def save_def read_csv_def to_csv_def csv_row_def cells_of_def
      csv_field_def quote_needed_def csv_header_def book_a_def
      u_def comma_def dquote_def lf_def cr_def repr_pence_def str_int_def pad_def
      infer_kind_def convert_def na_values_def true_values_def false_values_def
      float_decimal_def is_digit_def digits_value_def Let_def upt_rec)

lemma csv_empty_sequence:
  "load_data to_number (save float_repr [] output fs) output = Inl (SystemExit 1)"
  by (simp add: load_data_def save_def read_csv_def to_csv_def lf_def)

end
